theory Spec2Isabelle
  imports Complex_Main "HOL-Library.Product_Lexorder" "HOL-Library.AList"
begin

section \<open>Python floats\<close>

text \<open>
  A Python float is an IEEE double: its subtraction rounds, and a value may be
  infinite or not a number. The code below is written over a type \<open>'f\<close> of float
  values and takes the float operations it uses from a record: the rounded
  subtraction \<open>a - b\<close>, the comparisons \<open>a < b\<close> and \<open>a >= b\<close> (both false when an
  operand is not a number) and the constant \<open>0.0\<close>.
\<close>

record 'f float_ops =
  fsub :: "'f \<Rightarrow> 'f \<Rightarrow> 'f"
  flt :: "'f \<Rightarrow> 'f \<Rightarrow> bool"
  fge :: "'f \<Rightarrow> 'f \<Rightarrow> bool"
  fzero :: 'f

text \<open>
  Two laws relate the sign of a rounded difference to the comparison of its
  operands: \<open>0.0 < b - a\<close> holds exactly when \<open>a < b\<close>, and \<open>b - a\<close> is not \<open>0.0\<close>
  unless \<open>a >= b\<close>. IEEE doubles obey both: rounding is monotone, the difference
  of two distinct finite doubles is at least the smallest subnormal in absolute
  value and so never rounds to zero, an overflowing difference keeps its sign as an
  infinity, and a difference with a NaN operand (or of equal infinities) is NaN,
  which is neither \<open>0.0\<close> nor above it.
\<close>

definition sign_laws :: "'f float_ops \<Rightarrow> bool" where
  "sign_laws A =
     (\<forall>a b. flt A (fzero A) (fsub A b a) = flt A a b
            \<and> (fsub A b a = fzero A \<longrightarrow> fge A a b))"

text \<open>Python's \<open>max(0, y)\<close>: the first argument unless the second is greater.\<close>

definition py_max0 :: "'f float_ops \<Rightarrow> 'f \<Rightarrow> 'f" where
  "py_max0 A y = (if flt A (fzero A) y then y else fzero A)"

text \<open>
  One arithmetic that obeys the laws: extended reals with a NaN and no rounding
  error.
\<close>

datatype xfloat = Fin real | PInf | NInf | NaN

fun xsub :: "xfloat \<Rightarrow> xfloat \<Rightarrow> xfloat" where
  "xsub (Fin a) (Fin b) = Fin (a - b)"
| "xsub NaN _ = NaN"
| "xsub _ NaN = NaN"
| "xsub PInf PInf = NaN"
| "xsub NInf NInf = NaN"
| "xsub PInf _ = PInf"
| "xsub NInf _ = NInf"
| "xsub (Fin a) PInf = NInf"
| "xsub (Fin a) NInf = PInf"

fun xlt :: "xfloat \<Rightarrow> xfloat \<Rightarrow> bool" where
  "xlt (Fin a) (Fin b) = (a < b)"
| "xlt NaN _ = False"
| "xlt _ NaN = False"
| "xlt PInf _ = False"
| "xlt NInf NInf = False"
| "xlt NInf _ = True"
| "xlt (Fin a) PInf = True"
| "xlt (Fin a) NInf = False"

fun xge :: "xfloat \<Rightarrow> xfloat \<Rightarrow> bool" where
  "xge (Fin a) (Fin b) = (a \<ge> b)"
| "xge NaN _ = False"
| "xge _ NaN = False"
| "xge PInf _ = True"
| "xge NInf NInf = True"
| "xge NInf _ = False"
| "xge (Fin a) PInf = False"
| "xge (Fin a) NInf = True"

definition exact_ops :: "xfloat float_ops" where
  "exact_ops = \<lparr>fsub = xsub, flt = xlt, fge = xge, fzero = Fin 0\<rparr>"

section \<open>Rate limiter (utils/rate\_limiter.py)\<close>

text \<open>
  Every reading of \<open>time.time()\<close> is an argument of the operation that reads it.
\<close>

record 'f RateLimiter =
  delay :: 'f
  burst_size :: "int option"
  last_call_time :: 'f

definition new_RateLimiter :: "'f float_ops \<Rightarrow> 'f \<Rightarrow> int option \<Rightarrow> 'f RateLimiter" where
  "new_RateLimiter A d b = \<lparr>delay = d, burst_size = b, last_call_time = fzero A\<rparr>"

text \<open>
  \<open>wait\<close>: \<open>now\<close> is the clock read on entry, \<open>now'\<close> the clock read after the
  optional sleep. The first component is the argument of \<open>asyncio.sleep\<close>, or
  \<open>None\<close> when the method does not sleep.
\<close>

definition wait ::
  "'f float_ops \<Rightarrow> 'f \<Rightarrow> 'f \<Rightarrow> 'f RateLimiter \<Rightarrow> 'f option \<times> 'f RateLimiter" where
  "wait A now now' rl =
     (let time_since_last_call = fsub A now (last_call_time rl);
          slept = (if flt A time_since_last_call (delay rl)
                   then Some (fsub A (delay rl) time_since_last_call) else None)
      in (slept, rl\<lparr>last_call_time := now'\<rparr>))"

definition can_proceed :: "'f float_ops \<Rightarrow> 'f \<Rightarrow> 'f RateLimiter \<Rightarrow> bool \<times> 'f RateLimiter" where
  "can_proceed A now rl =
     (let time_since_last_call = fsub A now (last_call_time rl)
      in (fge A time_since_last_call (delay rl), rl))"

definition time_until_next_call ::
  "'f float_ops \<Rightarrow> 'f \<Rightarrow> 'f RateLimiter \<Rightarrow> 'f \<times> 'f RateLimiter" where
  "time_until_next_call A now rl =
     (let time_since_last_call = fsub A now (last_call_time rl)
      in (if fge A time_since_last_call (delay rl) then fzero A
          else fsub A (delay rl) time_since_last_call, rl))"

text \<open>Seconds spent suspended: \<open>0.0\<close> when \<open>asyncio.sleep\<close> is not called.\<close>

definition suspended :: "'f float_ops \<Rightarrow> 'f option \<Rightarrow> 'f" where
  "suspended A w = (case w of None \<Rightarrow> fzero A | Some s \<Rightarrow> s)"

section \<open>Connection pool manager (database/agent\_pool\_manager.py)\<close>

text \<open>
  Python dictionaries keep insertion order; they are association lists here.
  Assigning a key is \<open>AList.update\<close> (in place for a present key, appended for a
  new one), \<open>del\<close> is \<open>AList.delete\<close>, lookup is \<open>map_of\<close>.
  A backend client is opaque except for whether its \<open>close()\<close> raises.
\<close>

datatype MongoClient = Client (client_handle: nat) (close_raises: bool)

record AgentConnectionInfo =
  agent_id :: string
  agent_type :: string
  connection_count :: int
  last_activity :: real
  max_connections :: int
  priority :: int

record AgentPoolManager =
  total_max_connections :: int
  cleanup_interval :: int
  connection_timeout :: int
  agents :: "(string \<times> AgentConnectionInfo) list"
  connections :: "(string \<times> (string \<times> MongoClient) list) list"
  active_connections :: int
  shutdown_flag :: bool

datatype pool_error =
    ValueError_not_registered
  | RuntimeError_cannot_create
  | ConnectionFailure
  | KeyError

definition agent_configs :: "(string \<times> (string \<times> int) list) list" where
  "agent_configs =
     [(''crawler'', [(''max_connections'', 8), (''priority'', 2)]),
      (''scraper'', [(''max_connections'', 10), (''priority'', 3)]),
      (''downloader'', [(''max_connections'', 5), (''priority'', 2)]),
      (''database'', [(''max_connections'', 3), (''priority'', 4)]),
      (''nlp'', [(''max_connections'', 4), (''priority'', 1)]),
      (''monitoring'', [(''max_connections'', 2), (''priority'', 1)]),
      (''testing'', [(''max_connections'', 2), (''priority'', 1)]),
      (''orchestrator'', [(''max_connections'', 3), (''priority'', 4)])]"

definition dict_get :: "('k \<times> 'v) list \<Rightarrow> 'k \<Rightarrow> 'v \<Rightarrow> 'v" where
  "dict_get d k dflt = (case map_of d k of Some v \<Rightarrow> v | None \<Rightarrow> dflt)"

text \<open>Python's \<open>x or y\<close> on an optional integer: \<open>None\<close> and \<open>0\<close> are falsy.\<close>

definition py_or :: "int option \<Rightarrow> int \<Rightarrow> int" where
  "py_or x y = (case x of None \<Rightarrow> y | Some v \<Rightarrow> if v = 0 then y else v)"

definition new_AgentPoolManager :: "int \<Rightarrow> int \<Rightarrow> int \<Rightarrow> AgentPoolManager" where
  "new_AgentPoolManager total_max cleanup_interval_seconds connection_timeout_seconds =
     \<lparr>total_max_connections = total_max,
      cleanup_interval = cleanup_interval_seconds,
      connection_timeout = connection_timeout_seconds,
      agents = [], connections = [], active_connections = 0,
      shutdown_flag = False\<rparr>"

text \<open>
  \<open>_close_agent_connections\<close>: the counter goes down once for every client whose
  \<open>close()\<close> returns; a raising \<open>close()\<close> is logged and skipped. The agent's
  connection dictionary and its registration are removed in both cases.
\<close>

definition close_agent_connections :: "string \<Rightarrow> AgentPoolManager \<Rightarrow> AgentPoolManager" where
  "close_agent_connections aid s =
     (let s1 = (case map_of (connections s) aid of
                  None \<Rightarrow> s
                | Some conns \<Rightarrow>
                    s\<lparr>active_connections :=
                        active_connections s
                          - int (length (filter (\<lambda>(cid, c). \<not> close_raises c) conns)),
                      connections := AList.delete aid (connections s)\<rparr>)
      in s1\<lparr>agents := AList.delete aid (agents s1)\<rparr>)"

text \<open>
  Clock readings (\<open>time.time()\<close>) are finite doubles: they are real numbers and
  compare as real numbers, and so does a double with an integer. The difference of
  two readings is rounded; \<open>tsub\<close> is that rounded subtraction.
\<close>

definition cleanup_idle_connections ::
  "(real \<Rightarrow> real \<Rightarrow> real) \<Rightarrow> real \<Rightarrow> AgentPoolManager \<Rightarrow> AgentPoolManager" where
  "cleanup_idle_connections tsub current_time s =
     fold (\<lambda>aid st.
             case map_of (agents st) aid of
               None \<Rightarrow> st
             | Some agent_info \<Rightarrow>
                 if tsub current_time (last_activity agent_info)
                      > real_of_int (connection_timeout st)
                 then close_agent_connections aid st else st)
          (map fst (agents s)) s"

definition register_agent ::
  "real \<Rightarrow> string \<Rightarrow> string \<Rightarrow> int option \<Rightarrow> int option \<Rightarrow> AgentPoolManager
     \<Rightarrow> bool \<times> AgentPoolManager" where
  "register_agent now aid atype max_conns prio s =
     (if aid \<in> fst ` set (agents s) then (False, s)
      else
        let type_config = dict_get agent_configs atype [];
            max_conn = py_or max_conns (dict_get type_config ''max_connections'' 3);
            agent_priority = py_or prio (dict_get type_config ''priority'' 1);
            agent_info = \<lparr>agent_id = aid, agent_type = atype, connection_count = 0,
                          last_activity = now, max_connections = max_conn,
                          priority = agent_priority\<rparr>
        in (True, s\<lparr>agents := AList.update aid agent_info (agents s),
                     connections := AList.update aid [] (connections s)\<rparr>))"

definition preemption_candidates ::
  "string \<Rightarrow> AgentConnectionInfo \<Rightarrow> AgentPoolManager \<Rightarrow> (string \<times> AgentConnectionInfo) list" where
  "preemption_candidates requesting_agent_id requesting_agent s =
     filter (\<lambda>(aid, agent_info).
               aid \<noteq> requesting_agent_id
               \<and> priority agent_info < priority requesting_agent
               \<and> connection_count agent_info > 1)
            (agents s)"

definition candidate_key :: "string \<times> AgentConnectionInfo \<Rightarrow> int \<times> real" where
  "candidate_key x = (priority (snd x), last_activity (snd x))"

definition try_free_connections_for_agent ::
  "string \<Rightarrow> AgentPoolManager \<Rightarrow> bool \<times> AgentPoolManager" where
  "try_free_connections_for_agent requesting_agent_id s =
     (case map_of (agents s) requesting_agent_id of
        None \<Rightarrow> (False, s)
      | Some requesting_agent \<Rightarrow>
          (case sort_key candidate_key
                  (preemption_candidates requesting_agent_id requesting_agent s) of
             [] \<Rightarrow> (False, s)
           | (aid, _) # _ \<Rightarrow>
               (case dict_get (connections s) aid [] of
                  [] \<Rightarrow> (False, s)
                | (conn_id, client) # rest \<Rightarrow>
                    if close_raises client then (False, s)
                    else
                      (True,
                       s\<lparr>connections :=
                           AList.update aid (AList.delete conn_id ((conn_id, client) # rest))
                             (connections s),
                         agents :=
                           (case map_of (agents s) aid of
                              None \<Rightarrow> agents s
                            | Some info \<Rightarrow>
                                AList.update aid
                                  (info\<lparr>connection_count := connection_count info - 1\<rparr>)
                                  (agents s)),
                         active_connections := active_connections s - 1\<rparr>))))"

definition can_create_connection :: "string \<Rightarrow> AgentPoolManager \<Rightarrow> bool \<times> AgentPoolManager" where
  "can_create_connection aid s =
     (case map_of (agents s) aid of
        None \<Rightarrow> (False, s)
      | Some agent_info \<Rightarrow>
          if connection_count agent_info \<ge> max_connections agent_info then (False, s)
          else if active_connections s \<ge> total_max_connections s
               then try_free_connections_for_agent aid s
               else (True, s))"

text \<open>
  Entering \<open>get_connection\<close>. \<open>connection_id\<close> is the string built from the agent,
  the thread and the clock; \<open>connect\<close> is what \<open>MongoDBConnector.connect\<close> does
  (\<open>None\<close> when it raises); \<open>now\<close> is the clock read for \<open>last_activity\<close>.
\<close>

definition get_connection_enter ::
  "string \<Rightarrow> string \<Rightarrow> MongoClient option \<Rightarrow> real \<Rightarrow> AgentPoolManager
     \<Rightarrow> (pool_error + MongoClient) \<times> AgentPoolManager" where
  "get_connection_enter aid connection_id connect now s =
     (if aid \<notin> fst ` set (agents s) then (Inl ValueError_not_registered, s)
      else
        case can_create_connection aid s of
          (False, s1) \<Rightarrow> (Inl RuntimeError_cannot_create, s1)
        | (True, s1) \<Rightarrow>
            (case connect of
               None \<Rightarrow> (Inl ConnectionFailure, s1)
             | Some client \<Rightarrow>
                 (case map_of (connections s1) aid of
                    None \<Rightarrow> (Inl KeyError, s1)
                  | Some conns \<Rightarrow>
                      (case map_of (agents s1) aid of
                         None \<Rightarrow>
                           (Inl KeyError,
                            s1\<lparr>connections :=
                                 AList.update aid (AList.update connection_id client conns)
                                   (connections s1)\<rparr>)
                       | Some info \<Rightarrow>
                           (Inr client,
                            s1\<lparr>connections :=
                                 AList.update aid (AList.update connection_id client conns)
                                   (connections s1),
                               agents :=
                                 AList.update aid
                                   (info\<lparr>connection_count := connection_count info + 1,
                                         last_activity := now\<rparr>)
                                   (agents s1),
                               active_connections := active_connections s1 + 1\<rparr>)))))"

text \<open>
  Leaving \<open>get_connection\<close> with a client in hand (the \<open>finally\<close> block). A raising
  \<open>close()\<close> is caught and leaves the bookkeeping as it was.
\<close>

definition get_connection_exit ::
  "string \<Rightarrow> string \<Rightarrow> MongoClient \<Rightarrow> AgentPoolManager \<Rightarrow> AgentPoolManager" where
  "get_connection_exit aid connection_id client s =
     (case map_of (connections s) aid of
        None \<Rightarrow> s
      | Some conns \<Rightarrow>
          if connection_id \<in> fst ` set conns then
            if close_raises client then s
            else
              let s1 = s\<lparr>connections :=
                          AList.update aid (AList.delete connection_id conns) (connections s)\<rparr>
              in (case map_of (agents s1) aid of
                    None \<Rightarrow> s1
                  | Some info \<Rightarrow>
                      s1\<lparr>agents :=
                           AList.update aid
                             (info\<lparr>connection_count := connection_count info - 1\<rparr>)
                             (agents s1),
                         active_connections := active_connections s1 - 1\<rparr>)
          else s)"

definition shutdown :: "AgentPoolManager \<Rightarrow> AgentPoolManager" where
  "shutdown s =
     (let s1 = fold close_agent_connections (map fst (agents s)) (s\<lparr>shutdown_flag := True\<rparr>)
      in s1\<lparr>agents := [], connections := [], active_connections := 0\<rparr>)"

text \<open>Operations on the pool, with what the environment supplies to each.\<close>

datatype pool_op =
    Register real string string "int option" "int option"
  | Acquire string string "MongoClient option" real
  | Release string string MongoClient
  | IdleCleanup "real \<Rightarrow> real \<Rightarrow> real" real
  | Shutdown

fun apply_op :: "pool_op \<Rightarrow> AgentPoolManager \<Rightarrow> AgentPoolManager" where
  "apply_op (Register now aid atype m p) s = snd (register_agent now aid atype m p s)"
| "apply_op (Acquire aid cid connect now) s = snd (get_connection_enter aid cid connect now s)"
| "apply_op (Release aid cid client) s = get_connection_exit aid cid client s"
| "apply_op (IdleCleanup tsub now) s = cleanup_idle_connections tsub now s"
| "apply_op Shutdown s = shutdown s"

definition run_ops :: "pool_op list \<Rightarrow> AgentPoolManager \<Rightarrow> AgentPoolManager" where
  "run_ops ops s = fold apply_op ops s"







text \<open>
  The test of the idle sweep on one agent, the same test on an agent id, and the
  number of an agent's clients whose \<open>close()\<close> returns.
\<close>

definition is_idle ::
  "(real \<Rightarrow> real \<Rightarrow> real) \<Rightarrow> real \<Rightarrow> AgentPoolManager \<Rightarrow> AgentConnectionInfo \<Rightarrow> bool" where
  "is_idle tsub t s info = (tsub t (last_activity info) > real_of_int (connection_timeout s))"

definition idle_agent ::
  "(real \<Rightarrow> real \<Rightarrow> real) \<Rightarrow> real \<Rightarrow> AgentPoolManager \<Rightarrow> string \<Rightarrow> bool" where
  "idle_agent tsub t s aid =
     (case map_of (agents s) aid of None \<Rightarrow> False | Some info \<Rightarrow> is_idle tsub t s info)"

definition closable :: "AgentPoolManager \<Rightarrow> string \<Rightarrow> int" where
  "closable s aid =
     int (length (filter (\<lambda>(cid, c). \<not> close_raises c) (dict_get (connections s) aid [])))"

text \<open>The body of the sweep's loop, for one agent id.\<close>

definition sweep_step ::
  "(real \<Rightarrow> real \<Rightarrow> real) \<Rightarrow> real \<Rightarrow> string \<Rightarrow> AgentPoolManager \<Rightarrow> AgentPoolManager" where
  "sweep_step tsub t aid st =
     (case map_of (agents st) aid of
        None \<Rightarrow> st
      | Some agent_info \<Rightarrow>
          if tsub t (last_activity agent_info) > real_of_int (connection_timeout st)
          then close_agent_connections aid st else st)"

text \<open>
  A run on a pool of two connections: a crawler takes both, a database agent of
  higher priority preempts one, both release, the sweep runs and the pool shuts
  down. \<open>example_pool\<close> is the pool after the preemption.
\<close>

definition example_ops :: "pool_op list" where
  "example_ops =
     [Register 100 ''a1'' ''crawler'' None None,
      Register 101 ''a2'' ''database'' None None,
      Acquire ''a1'' ''a1_1_102'' (Some (Client 1 False)) 102,
      Acquire ''a1'' ''a1_1_103'' (Some (Client 2 False)) 103,
      Acquire ''a2'' ''a2_1_104'' (Some (Client 3 False)) 104,
      Release ''a1'' ''a1_1_102'' (Client 1 False),
      Release ''a2'' ''a2_1_104'' (Client 3 False),
      IdleCleanup (\<lambda>a b. a - b) 2000,
      Shutdown]"

definition example_pool :: AgentPoolManager where
  "example_pool = run_ops (take 5 example_ops) (new_AgentPoolManager 2 300 1800)"

section \<open>Properties of the rate limiter\<close>

lemma exact_ops_sign_laws: "sign_laws exact_ops"
proof -
  have "xlt (Fin 0) (xsub b a) = xlt a b \<and> (xsub b a = Fin 0 \<longrightarrow> xge a b)" for a b
    by (cases a; cases b) auto
  then show ?thesis by (simp add: sign_laws_def exact_ops_def)
qed

text \<open>
  Claim C9. All arithmetic is the code's own float arithmetic. For a limiter with
  delay \<open>d\<close> and last permitted call at \<open>L\<close>, read at time \<open>t\<close>: \<open>can_proceed\<close> answers
  true exactly when \<open>t - L >= d\<close>, which is exactly when \<open>time_until_next_call\<close>
  answers \<open>0.0\<close>; in the other case \<open>time_until_next_call\<close> answers \<open>d - (t - L)\<close>.
  \<open>wait\<close> suspends for \<open>max(0, d - (t - L))\<close> seconds and then stores the new clock
  reading as the last call time. The two queries return the limiter they were
  given. This holds in every float arithmetic that obeys the two sign laws, for
  every delay and clock reading, infinities and NaN included.
\<close>

theorem rate_limiter_queries_and_wait:
  assumes "sign_laws A"
  shows "fst (can_proceed A t rl) = fge A (fsub A t (last_call_time rl)) (delay rl)
   \<and> fst (can_proceed A t rl) = (fst (time_until_next_call A t rl) = fzero A)
   \<and> fst (time_until_next_call A t rl)
       = (if fst (can_proceed A t rl) then fzero A
          else fsub A (delay rl) (fsub A t (last_call_time rl)))
   \<and> suspended A (fst (wait A t t' rl))
       = py_max0 A (fsub A (delay rl) (fsub A t (last_call_time rl)))
   \<and> last_call_time (snd (wait A t t' rl)) = t'
   \<and> delay (snd (wait A t t' rl)) = delay rl
   \<and> snd (can_proceed A t rl) = rl
   \<and> snd (time_until_next_call A t rl) = rl"
proof -
  let ?x = "fsub A t (last_call_time rl)"
  from assms have pos: "flt A (fzero A) (fsub A (delay rl) ?x) = flt A ?x (delay rl)"
    and zer: "fsub A (delay rl) ?x = fzero A \<longrightarrow> fge A ?x (delay rl)"
    unfolding sign_laws_def by blast+
  have q: "fst (can_proceed A t rl) = (fst (time_until_next_call A t rl) = fzero A)"
    using zer by (auto simp: can_proceed_def time_until_next_call_def Let_def)
  have w: "suspended A (fst (wait A t t' rl)) = py_max0 A (fsub A (delay rl) ?x)"
    using pos by (simp add: wait_def suspended_def py_max0_def Let_def)
  show ?thesis
    using q w by (simp add: can_proceed_def time_until_next_call_def wait_def Let_def)
qed

text \<open>
  An instance in the arithmetic without rounding error: delay \<open>3\<close>, last call at
  \<open>10\<close>, clock at \<open>11\<close>, then at \<open>13\<close> after the sleep.
\<close>

theorem rate_limiter_queries_and_wait_witness:
  "sign_laws exact_ops
   \<and> fst (can_proceed exact_ops (Fin 11)
            \<lparr>delay = Fin 3, burst_size = None, last_call_time = Fin 10\<rparr>) = False
   \<and> fst (time_until_next_call exact_ops (Fin 11)
            \<lparr>delay = Fin 3, burst_size = None, last_call_time = Fin 10\<rparr>) = Fin 2
   \<and> suspended exact_ops (fst (wait exact_ops (Fin 11) (Fin 13)
            \<lparr>delay = Fin 3, burst_size = None, last_call_time = Fin 10\<rparr>)) = Fin 2
   \<and> last_call_time (snd (wait exact_ops (Fin 11) (Fin 13)
            \<lparr>delay = Fin 3, burst_size = None, last_call_time = Fin 10\<rparr>)) = Fin 13"
  using rate_limiter_queries_and_wait [OF exact_ops_sign_laws,
          of "Fin 11" "\<lparr>delay = Fin 3, burst_size = None, last_call_time = Fin 10\<rparr>" "Fin 13"]
        exact_ops_sign_laws
  by (simp add: exact_ops_def py_max0_def)

section \<open>Properties of the connection pool\<close>



lemma delete_absent:
  "k \<notin> fst ` set ags \<Longrightarrow> AList.delete k ags = ags"
  by (induction ags) (auto simp: )


lemma all_set_map_of:
  "distinct (map fst al) \<Longrightarrow> (\<forall>p\<in>set al. P p) = (\<forall>k v. map_of al k = Some v \<longrightarrow> P (k, v))"
  by (auto simp: )

lemma map_of_None_iff: "(map_of al k = None) = (k \<notin> fst ` set al)"
  by (simp add: map_of_eq_None_iff)










lemma close_agent_connections_fields:
  "agents (close_agent_connections aid s) = AList.delete aid (agents s)"
  "connections (close_agent_connections aid s) = AList.delete aid (connections s)"
  "total_max_connections (close_agent_connections aid s) = total_max_connections s"
  "connection_timeout (close_agent_connections aid s) = connection_timeout s"
  "active_connections (close_agent_connections aid s) =
     active_connections s
       - int (length (filter (\<lambda>(cid, c). \<not> close_raises c) (dict_get (connections s) aid [])))"
proof -
  show "agents (close_agent_connections aid s) = AList.delete aid (agents s)"
    by (cases "map_of (connections s) aid") (simp_all add: close_agent_connections_def)
  show "connections (close_agent_connections aid s) = AList.delete aid (connections s)"
  proof (cases "map_of (connections s) aid")
    case None
    then have "aid \<notin> fst ` set (connections s)" by (simp add: map_of_None_iff)
    then have "AList.delete aid (connections s) = connections s"
      by (rule delete_absent)
    then show ?thesis using None by (simp add: close_agent_connections_def)
  next
    case (Some conns)
    then show ?thesis by (simp add: close_agent_connections_def)
  qed
  show "total_max_connections (close_agent_connections aid s) = total_max_connections s"
    by (cases "map_of (connections s) aid") (simp_all add: close_agent_connections_def)
  show "connection_timeout (close_agent_connections aid s) = connection_timeout s"
    by (cases "map_of (connections s) aid") (simp_all add: close_agent_connections_def)
  show "active_connections (close_agent_connections aid s) =
     active_connections s
       - int (length (filter (\<lambda>(cid, c). \<not> close_raises c) (dict_get (connections s) aid [])))"
    by (cases "map_of (connections s) aid")
       (simp_all add: close_agent_connections_def dict_get_def)
qed






































lemma cleanup_as_sweep:
  "cleanup_idle_connections tsub t s = fold (sweep_step tsub t) (map fst (agents s)) s"
  unfolding cleanup_idle_connections_def sweep_step_def ..

lemma sweep_step_cases:
  "sweep_step tsub t k st = (if idle_agent tsub t st k then close_agent_connections k st else st)"
  by (simp add: sweep_step_def idle_agent_def is_idle_def split: option.splits)

lemma delete_filter: "AList.delete k al = filter (\<lambda>p. fst p \<noteq> k) al"
  by (induction al) auto

lemma is_idle_close [simp]:
  "is_idle tsub t (close_agent_connections k st) info = is_idle tsub t st info"
  by (simp add: is_idle_def close_agent_connections_fields)

lemma idle_agent_close:
  "k' \<noteq> k \<Longrightarrow> idle_agent tsub t (close_agent_connections k st) k' = idle_agent tsub t st k'"
  by (simp add: idle_agent_def close_agent_connections_fields delete_conv' split: option.splits)

lemma closable_close:
  "k' \<noteq> k \<Longrightarrow> closable (close_agent_connections k st) k' = closable st k'"
  by (simp add: closable_def dict_get_def close_agent_connections_fields delete_conv')

lemma sweep_fold:
  assumes "distinct ks" "distinct (map fst (agents st))"
  shows "agents (fold (sweep_step tsub t) ks st)
           = filter (\<lambda>p. \<not> (fst p \<in> set ks \<and> is_idle tsub t st (snd p))) (agents st)
       \<and> connections (fold (sweep_step tsub t) ks st)
           = filter (\<lambda>p. \<not> (fst p \<in> set ks \<and> idle_agent tsub t st (fst p))) (connections st)
       \<and> active_connections (fold (sweep_step tsub t) ks st)
           = active_connections st
              - sum_list (map (closable st) (filter (idle_agent tsub t st) ks))"
  using assms
proof (induction ks arbitrary: st)
  case Nil
  then show ?case by simp
next
  case (Cons k ks)
  show ?case
  proof (cases "idle_agent tsub t st k")
    case False
    then have st1: "sweep_step tsub t k st = st" by (simp add: sweep_step_cases)
    have d: "distinct ks" using Cons.prems(1) by simp
    note IH = Cons.IH[OF d Cons.prems(2)]
    have a: "filter (\<lambda>p. \<not> (fst p \<in> set ks \<and> is_idle tsub t st (snd p))) (agents st)
           = filter (\<lambda>p. \<not> (fst p \<in> set (k # ks) \<and> is_idle tsub t st (snd p))) (agents st)"
    proof (rule filter_cong[OF refl])
      fix p assume p: "p \<in> set (agents st)"
      then have "map_of (agents st) (fst p) = Some (snd p)" using Cons.prems(2) by simp
      then have "fst p = k \<Longrightarrow> \<not> is_idle tsub t st (snd p)"
        using False by (simp add: idle_agent_def)
      then show "(\<not> (fst p \<in> set ks \<and> is_idle tsub t st (snd p)))
               = (\<not> (fst p \<in> set (k # ks) \<and> is_idle tsub t st (snd p)))" by auto
    qed
    have c: "filter (\<lambda>p. \<not> (fst p \<in> set ks \<and> idle_agent tsub t st (fst p))) (connections st)
           = filter (\<lambda>p. \<not> (fst p \<in> set (k # ks) \<and> idle_agent tsub t st (fst p))) (connections st)"
      by (rule filter_cong[OF refl]) (use False in auto)
    show ?thesis using IH a c False by (simp add: st1)
  next
    case True
    let ?st1 = "close_agent_connections k st"
    have st1: "sweep_step tsub t k st = ?st1" using True by (simp add: sweep_step_cases)
    from True obtain info where m: "map_of (agents st) k = Some info" and i: "is_idle tsub t st info"
      by (auto simp: idle_agent_def split: option.splits)
    have d: "distinct ks" and nk: "k \<notin> set ks" using Cons.prems(1) by simp_all
    have d1: "distinct (map fst (agents ?st1))"
      using Cons.prems(2) by (simp add: close_agent_connections_fields distinct_delete)
    note IH = Cons.IH[OF d d1]
    have a: "filter (\<lambda>p. \<not> (fst p \<in> set ks \<and> is_idle tsub t st (snd p)))
               (filter (\<lambda>p. fst p \<noteq> k) (agents st))
           = filter (\<lambda>p. \<not> (fst p \<in> set (k # ks) \<and> is_idle tsub t st (snd p))) (agents st)"
      unfolding filter_filter
    proof (rule filter_cong[OF refl])
      fix p assume p: "p \<in> set (agents st)"
      then have "map_of (agents st) (fst p) = Some (snd p)" using Cons.prems(2) by simp
      then have "fst p = k \<Longrightarrow> is_idle tsub t st (snd p)" using m i by simp
      then show "(fst p \<noteq> k \<and> \<not> (fst p \<in> set ks \<and> is_idle tsub t st (snd p)))
               = (\<not> (fst p \<in> set (k # ks) \<and> is_idle tsub t st (snd p)))" by auto
    qed
    have c: "filter (\<lambda>p. \<not> (fst p \<in> set ks \<and> idle_agent tsub t ?st1 (fst p)))
               (filter (\<lambda>p. fst p \<noteq> k) (connections st))
           = filter (\<lambda>p. \<not> (fst p \<in> set (k # ks) \<and> idle_agent tsub t st (fst p))) (connections st)"
      unfolding filter_filter
    proof (rule filter_cong[OF refl])
      fix p assume "p \<in> set (connections st)"
      show "(fst p \<noteq> k \<and> \<not> (fst p \<in> set ks \<and> idle_agent tsub t ?st1 (fst p)))
          = (\<not> (fst p \<in> set (k # ks) \<and> idle_agent tsub t st (fst p)))"
        using True idle_agent_close[of "fst p" k tsub t st] by auto
    qed
    have ia: "idle_agent tsub t ?st1 x = idle_agent tsub t st x" if "x \<in> set ks" for x
      using that nk by (metis idle_agent_close)
    have cl: "closable ?st1 x = closable st x" if "x \<in> set ks" for x
      using that nk by (metis closable_close)
    have s: "map (closable ?st1) (filter (idle_agent tsub t ?st1) ks)
           = map (closable st) (filter (idle_agent tsub t st) ks)"
    proof -
      have "filter (idle_agent tsub t ?st1) ks = filter (idle_agent tsub t st) ks"
        by (rule filter_cong[OF refl]) (rule ia)
      moreover have "map (closable ?st1) (filter (idle_agent tsub t st) ks)
                   = map (closable st) (filter (idle_agent tsub t st) ks)"
        by (rule map_cong[OF refl]) (simp add: cl)
      ultimately show ?thesis by simp
    qed
    have act: "active_connections ?st1 = active_connections st - closable st k"
      by (simp add: close_agent_connections_fields closable_def)
    show ?thesis
      using IH a c s act True
      by (simp add: st1 close_agent_connections_fields delete_filter)
  qed
qed

lemma map_of_filter_key:
  "map_of (filter (\<lambda>p. P (fst p)) al) k = (if P k then map_of al k else None)"
  by (induction al) auto

text \<open>
  Claim C4. A sweep at time \<open>t\<close> over a pool whose agent ids are distinct (a
  dictionary) removes the registration and the connection dictionary of exactly
  the agents with \<open>t - last_activity > connection_timeout\<close>, the difference being
  the code's rounded one; the counter of active connections goes down by the
  number of their clients whose \<open>close()\<close> returned. Every other agent keeps its
  registration, with its counters, and its connections.
\<close>

theorem idle_sweep_removes_exactly_idle_agents:
  assumes "distinct (map fst (agents s))"
  shows "agents (cleanup_idle_connections tsub t s)
           = filter (\<lambda>p. \<not> is_idle tsub t s (snd p)) (agents s)
       \<and> connections (cleanup_idle_connections tsub t s)
           = filter (\<lambda>p. \<not> idle_agent tsub t s (fst p)) (connections s)
       \<and> active_connections (cleanup_idle_connections tsub t s)
           = active_connections s
              - sum_list (map (closable s) (filter (idle_agent tsub t s) (map fst (agents s))))
       \<and> (\<forall>aid info. map_of (agents s) aid = Some info \<longrightarrow>
             (if is_idle tsub t s info
              then map_of (agents (cleanup_idle_connections tsub t s)) aid = None
                   \<and> map_of (connections (cleanup_idle_connections tsub t s)) aid = None
              else map_of (agents (cleanup_idle_connections tsub t s)) aid = Some info
                   \<and> map_of (connections (cleanup_idle_connections tsub t s)) aid
                       = map_of (connections s) aid))"
proof -
  let ?s' = "cleanup_idle_connections tsub t s"
  note sf = sweep_fold[OF assms assms, of tsub t, folded cleanup_as_sweep]
  have ai: "is_idle tsub t s (snd p) = idle_agent tsub t s (fst p)" if "p \<in> set (agents s)" for p
  proof -
    have "map_of (agents s) (fst p) = Some (snd p)" using that assms by simp
    then show ?thesis by (simp add: idle_agent_def)
  qed
  have a1: "agents ?s' = filter (\<lambda>p. \<not> idle_agent tsub t s (fst p)) (agents s)"
  proof -
    have "filter (\<lambda>p. \<not> (fst p \<in> set (map fst (agents s)) \<and> is_idle tsub t s (snd p))) (agents s)
        = filter (\<lambda>p. \<not> idle_agent tsub t s (fst p)) (agents s)"
      by (rule filter_cong[OF refl]) (use ai in auto)
    then show ?thesis using sf by simp
  qed
  have a2: "agents ?s' = filter (\<lambda>p. \<not> is_idle tsub t s (snd p)) (agents s)"
    unfolding a1 by (rule filter_cong[OF refl]) (simp add: ai)
  have c: "connections ?s' = filter (\<lambda>p. \<not> idle_agent tsub t s (fst p)) (connections s)"
  proof -
    have k: "idle_agent tsub t s k \<Longrightarrow> k \<in> set (map fst (agents s))" for k
      using map_of_None_iff[of "agents s" k]
      by (auto simp: idle_agent_def split: option.splits)
    have "filter (\<lambda>p. \<not> (fst p \<in> set (map fst (agents s)) \<and> idle_agent tsub t s (fst p)))
            (connections s)
        = filter (\<lambda>p. \<not> idle_agent tsub t s (fst p)) (connections s)"
      by (rule filter_cong[OF refl]) (use k in blast)
    then show ?thesis using sf by simp
  qed
  have act: "active_connections ?s' = active_connections s
              - sum_list (map (closable s) (filter (idle_agent tsub t s) (map fst (agents s))))"
    using sf by simp
  have per: "\<forall>aid info. map_of (agents s) aid = Some info \<longrightarrow>
             (if is_idle tsub t s info
              then map_of (agents ?s') aid = None \<and> map_of (connections ?s') aid = None
              else map_of (agents ?s') aid = Some info
                   \<and> map_of (connections ?s') aid = map_of (connections s) aid)"
  proof (intro allI impI)
    fix aid info assume m: "map_of (agents s) aid = Some info"
    have ia: "idle_agent tsub t s aid = is_idle tsub t s info" by (simp add: idle_agent_def m)
    show "if is_idle tsub t s info
              then map_of (agents ?s') aid = None \<and> map_of (connections ?s') aid = None
              else map_of (agents ?s') aid = Some info
                   \<and> map_of (connections ?s') aid = map_of (connections s) aid"
      using map_of_filter_key[of "\<lambda>k. \<not> idle_agent tsub t s k" "agents s" aid]
            map_of_filter_key[of "\<lambda>k. \<not> idle_agent tsub t s k" "connections s" aid]
      by (simp add: a1 c ia m)
  qed
  show ?thesis using a2 c act per by blast
qed

lemmas pool_defs = new_AgentPoolManager_def register_agent_def
        get_connection_enter_def get_connection_exit_def can_create_connection_def
        try_free_connections_for_agent_def preemption_candidates_def candidate_key_def
        cleanup_idle_connections_def close_agent_connections_def shutdown_def
        dict_get_def py_or_def agent_configs_def Let_def run_ops_def


lemma example_pool_eq:
  "example_pool =
    \<lparr>total_max_connections = 2, cleanup_interval = 300, connection_timeout = 1800,
     agents =
       [(''a1'', \<lparr>agent_id = ''a1'', agent_type = ''crawler'', connection_count = 1,
            last_activity = 103, max_connections = 8, priority = 2\<rparr>),
        (''a2'', \<lparr>agent_id = ''a2'', agent_type = ''database'', connection_count = 1,
            last_activity = 104, max_connections = 3, priority = 4\<rparr>)],
     connections =
       [(''a1'', [(''a1_1_103'', Client 2 False)]),
        (''a2'', [(''a2_1_104'', Client 3 False)])],
     active_connections = 2, shutdown_flag = False\<rparr>"
  by (simp add: example_pool_def example_ops_def pool_defs)

text \<open>
  In \<open>example_pool\<close>, swept at time \<open>1903.5\<close> with timeout \<open>1800\<close>: agent \<open>a1\<close>, last
  active at \<open>103\<close>, goes; agent \<open>a2\<close>, last active at \<open>104\<close>, stays.
\<close>

theorem idle_sweep_removes_exactly_idle_agents_witness:
  "distinct (map fst (agents example_pool))
   \<and> map fst (agents (cleanup_idle_connections (\<lambda>a b. a - b) (3807/2) example_pool)) = [''a2'']
   \<and> connections (cleanup_idle_connections (\<lambda>a b. a - b) (3807/2) example_pool)
        = [(''a2'', [(''a2_1_104'', Client 3 False)])]
   \<and> active_connections (cleanup_idle_connections (\<lambda>a b. a - b) (3807/2) example_pool) = 1"
  using idle_sweep_removes_exactly_idle_agents [of example_pool "\<lambda>a b. a - b" "3807/2"]
  by (simp add: example_pool_eq is_idle_def idle_agent_def closable_def dict_get_def)



end
